theory Spec2Isabelle
  imports Complex_Main
begin

section \<open>Errors and Python values\<close>

text \<open>
  The sources raise \<open>ValueError\<close> with a message; the spec gives each message a name.
  One constructor of \<open>err_msg\<close> stands for each message of the two source files:
  \<^item> \<open>NoiseUnsupported\<close>: "Target backend does not support noise models."
    (the spec's UnsupportedNoiseModelError);
  \<^item> \<open>ShotsNeeded\<close>: "A number of shots needs to be specified." (ShotsRequiredError);
  \<^item> \<open>MixedNeedsShots\<close>: "Circuit contains MEASURE instruction, ..."
    (MixedStateRequiresShotsError);
  \<^item> \<open>EmptyCircuit\<close>: "Cannot simulate an empty circuit ..." (EmptyCircuitWidthError);
  \<^item> \<open>QiskitInitialNoise\<close>: "Cannot load an initial state if using a noise model, with
    Qiskit" (IncompatibleInitialStateError);
  \<^item> \<open>TermTooWide t w\<close>: "Term t requires more qubits than the circuit contains (w)"
    (OperatorWidthError);
  \<^item> \<open>OperatorTooWide w\<close>: "Size of operator ... beyond circuit width (w qubits)";
  \<^item> \<open>NonEmptyFrequencies\<close>: "Must pass a non-empty dictionary of frequencies."
    (EmptyFrequencyTableError);
  \<^item> \<open>GateNotSupported g\<close>: "Gate 'g' not supported with JSON IonQ translation"
    (UnsupportedGateError);
  \<^item> \<open>BitarrayError\<close>: what \<open>bitarray\<close> raises on a character other than 0 and 1 and
    on operands of different lengths;
  \<^item> \<open>IntLiteral\<close>: what \<open>int(s, 2)\<close> raises on a string that is not binary digits;
  \<^item> \<open>MathDomain\<close>: what \<open>math.log2(0)\<close> raises;
  \<^item> \<open>ArrayTooLarge\<close>: what \<open>np.zeros\<close> raises on a dimension beyond the
    platform's index type ("Maximum allowed dimension exceeded").
  The other constructors of \<open>py_error\<close> are the exceptions the interpreter raises by
  itself: an index out of range, a missing key, an operation on \<open>None\<close> or on a value
  of the wrong type, a division by zero, an allocation the machine cannot serve.
\<close>

type_synonym pauli_term = "(nat \<times> string) list"

datatype err_msg =
    NoiseUnsupported
  | ShotsNeeded
  | MixedNeedsShots
  | EmptyCircuit
  | QiskitInitialNoise
  | TermTooWide pauli_term nat
  | OperatorTooWide nat
  | NonEmptyFrequencies
  | GateNotSupported string
  | BitarrayError
  | IntLiteral
  | MathDomain
  | ArrayTooLarge

datatype py_error =
    ValueError err_msg
  | IndexError
  | KeyError string
  | TypeError
  | ZeroDivisionError
  | MemoryError
  | BackendError string

text \<open>
  A Python number is a float or a complex. A float is modelled as the real number it
  denotes. Sums, products and quotients of floats are modelled as the exact ones: the
  rounding of an accumulated value is outside this development. No branch of the model
  rests on such a result: the one computation on floats whose result decides a branch,
  \<open>abs(amplitude)**2\<close>, is a parameter (see the backends), and a comparison of two
  floats is the comparison of the reals they denote.
\<close>

datatype pynum = PyFloat real | PyComplex complex

fun to_complex :: "pynum \<Rightarrow> complex" where
  "to_complex (PyFloat x) = complex_of_real x"
| "to_complex (PyComplex z) = z"

text \<open>The attribute \<open>.real\<close> of a float or of a complex: always a float.\<close>

fun real_attr :: "pynum \<Rightarrow> pynum" where
  "real_attr (PyFloat x) = PyFloat x"
| "real_attr (PyComplex z) = PyFloat (Re z)"

fun py_add :: "pynum \<Rightarrow> pynum \<Rightarrow> pynum" where
  "py_add (PyFloat x) (PyFloat y) = PyFloat (x + y)"
| "py_add a b = PyComplex (to_complex a + to_complex b)"

fun py_mul :: "pynum \<Rightarrow> pynum \<Rightarrow> pynum" where
  "py_mul (PyFloat x) (PyFloat y) = PyFloat (x * y)"
| "py_mul a b = PyComplex (to_complex a * to_complex b)"

text \<open>
  What a function hands back with \<open>return\<close>: a number, or an exception object that was
  built but not raised, or \<open>None\<close> when its body ends without a \<open>return\<close>.
\<close>

datatype pyval = Num pynum | ExcObject py_error | PyNone

section \<open>Bit strings\<close>

text \<open>
  \<open>bin(i).split('b')[-1]\<close> for a natural number: its binary digits, most significant
  first, and \<open>"0"\<close> for zero.
\<close>

fun bin_digits :: "nat \<Rightarrow> string" where
  "bin_digits n =
     (if n = 0 then []
      else bin_digits (n div 2) @ [if odd n then CHR ''1'' else CHR ''0''])"

declare bin_digits.simps [simp del]

definition bin_str :: "nat \<Rightarrow> string" where
  "bin_str n = (if n = 0 then ''0'' else bin_digits n)"

text \<open>
  \<open>"0" * (n - len(bs)) + bs\<close>: Python repeats a string zero times when the count is
  negative, which is what truncating subtraction on \<open>nat\<close> gives.
\<close>

definition zero_pad :: "nat \<Rightarrow> string \<Rightarrow> string" where
  "zero_pad n bs = replicate (n - length bs) CHR ''0'' @ bs"

text \<open>\<open>Simulator.__int_to_binstr\<close>, with the instance's \<open>statevector_order\<close> as argument.\<close>

definition int_to_binstr :: "string option \<Rightarrow> nat \<Rightarrow> nat \<Rightarrow> string" where
  "int_to_binstr statevector_order i n_qubits =
     (let bs = bin_str i;
          state_binstr = zero_pad n_qubits bs
      in if statevector_order = Some ''msq_first'' then rev state_binstr else state_binstr)"

text \<open>
  \<open>int(s, 2)\<close> on a string of binary digits. Python also accepts a sign, a \<open>0b\<close>
  prefix, underscores and surrounding blanks; no key of a frequency table has them.
\<close>

definition is_bit :: "char \<Rightarrow> bool" where
  "is_bit c = (c = CHR ''0'' \<or> c = CHR ''1'')"

definition bits_value :: "string \<Rightarrow> nat" where
  "bits_value s = foldl (\<lambda>acc c. 2 * acc + (if c = CHR ''1'' then 1 else 0)) 0 s"

definition int_base2 :: "string \<Rightarrow> py_error + nat" where
  "int_base2 s =
     (if s \<noteq> [] \<and> list_all is_bit s then Inr (bits_value s)
      else Inl (ValueError IntLiteral))"

section \<open>Capability registry and construction\<close>

record descriptor =
  statevector_available :: bool
  statevector_order :: "string option"
  noisy_simulation :: bool

definition backend_info :: "string \<Rightarrow> descriptor option" where
  "backend_info t =
     (if t = ''qiskit'' then
        Some \<lparr>statevector_available = True, statevector_order = Some ''msq_first'',
              noisy_simulation = True\<rparr>
      else if t = ''qulacs'' then
        Some \<lparr>statevector_available = True, statevector_order = Some ''msq_first'',
              noisy_simulation = True\<rparr>
      else if t = ''projectq'' then
        Some \<lparr>statevector_available = True, statevector_order = Some ''msq_first'',
              noisy_simulation = False\<rparr>
      else if t = ''qdk'' then
        Some \<lparr>statevector_available = False, statevector_order = None,
              noisy_simulation = False\<rparr>
      else None)"

text \<open>
  Modelled from the spec: the noise model's class is not among the sources. The core
  treats it as a token that is present or absent and forwards it to the backend; an
  object of that class is always true in a condition.
\<close>

datatype noise_model = NoiseModel string

type_synonym statevector = "complex list"

text \<open>
  The external world as the core sees it: the sequence of calls made so far to a
  translator (\<open>Translate\<close>, with the target's name), to a backend library
  (\<open>Run\<close>) and to the random sampler (\<open>Draw\<close>). The answer of a backend or of
  the sampler may depend on it, as a random draw does.
\<close>

datatype event = Translate string | Run string | Draw

type_synonym world = "event list"

text \<open>
  The instance: \<open>_target\<close>, \<open>_current_state\<close>, \<open>_noise_model\<close>, \<open>n_shots\<close>,
  \<open>freq_threshold\<close> and the three capability flags copied from the registry.
  \<open>n_shots\<close> is a number of shots or \<open>None\<close>. The constructor sets the threshold
  to the float written \<open>1e-10\<close>, which is the number \<open>7737125245533627 / 2^86\<close>.
\<close>

record simulator =
  sim_target :: string
  current_state :: "statevector option"
  sim_noise_model :: "noise_model option"
  n_shots :: "nat option"
  freq_threshold :: real
  sv_available :: bool
  sv_order :: "string option"
  noisy_ok :: bool

text \<open>\<open>not self.n_shots\<close>: true for \<open>None\<close> and for \<open>0\<close>.\<close>

definition no_shots :: "nat option \<Rightarrow> bool" where
  "no_shots n = (case n of None \<Rightarrow> True | Some k \<Rightarrow> k = 0)"

text \<open>
  \<open>Simulator.__init__\<close>. The registry lookup raises \<open>KeyError\<close> on an unknown target.
  The constructor calls no backend: the world it is given is the world it leaves.
\<close>

definition Simulator_init ::
  "world \<Rightarrow> string \<Rightarrow> nat option \<Rightarrow> noise_model option \<Rightarrow> (py_error + simulator) \<times> world" where
  "Simulator_init w tgt shots noise =
     (case backend_info tgt of
        None \<Rightarrow> (Inl (KeyError tgt), w)
      | Some d \<Rightarrow>
          if noise \<noteq> None \<and> \<not> noisy_simulation d then
            (Inl (ValueError NoiseUnsupported), w)
          else if no_shots shots \<and> (\<not> statevector_available d \<or> noise \<noteq> None) then
            (Inl (ValueError ShotsNeeded), w)
          else
            (Inr \<lparr>sim_target = tgt, current_state = None, sim_noise_model = noise,
                  n_shots = shots, freq_threshold = 7737125245533627 / 2 ^ 86,
                  sv_available = statevector_available d,
                  sv_order = statevector_order d,
                  noisy_ok = noisy_simulation d\<rparr>, w))"


section \<open>Circuits\<close>

text \<open>
  Modelled from the spec: the classes \<open>Gate\<close> and \<open>Circuit\<close> are not among the
  sources. A gate has a name, a target qubit, an optional control qubit and an optional
  rotation parameter. A circuit is an ordered sequence of gates with a width (its qubit
  count); its size is its gate count, and it prepares a mixed state iff one of its
  gates is a measurement.
\<close>

record gate =
  name :: string
  target :: nat
  control :: "nat option"
  parameter :: "real option"

record circuit =
  gates :: "gate list"
  width :: nat

definition circuit_size :: "circuit \<Rightarrow> nat" where
  "circuit_size c = length (gates c)"

definition is_mixed_state :: "circuit \<Rightarrow> bool" where
  "is_mixed_state c = list_ex (\<lambda>g. name g = ''MEASURE'') (gates c)"

section \<open>Dictionaries\<close>

text \<open>
  A \<open>dict\<close> keeps its keys in insertion order: an association list with distinct
  keys. \<open>d[k] = v\<close> replaces the value of a key that is present, in place, and appends
  a new key.
\<close>

fun dict_set :: "'k \<Rightarrow> 'v \<Rightarrow> ('k \<times> 'v) list \<Rightarrow> ('k \<times> 'v) list" where
  "dict_set k v [] = [(k, v)]"
| "dict_set k v ((k', v') # d) =
     (if k = k' then (k', v) # d else (k', v') # dict_set k v d)"

text \<open>
  A dictionary comprehension \<open>{key(x): val(x) for x in xs}\<close> whose entries may raise:
  the first exception ends it.
\<close>

fun dict_comp :: "('a \<Rightarrow> py_error + 'k \<times> 'v) \<Rightarrow> 'a list \<Rightarrow> ('k \<times> 'v) list
    \<Rightarrow> py_error + ('k \<times> 'v) list" where
  "dict_comp f [] acc = Inr acc"
| "dict_comp f (x # xs) acc =
     (case f x of Inl e \<Rightarrow> Inl e | Inr (k, v) \<Rightarrow> dict_comp f xs (dict_set k v acc))"

text \<open>\<open>Counter(samples).items()\<close>: each distinct sample, in order of first occurrence,
  with the number of times it occurs.\<close>

fun counter_add :: "'a \<Rightarrow> ('a \<times> nat) list \<Rightarrow> ('a \<times> nat) list" where
  "counter_add x [] = [(x, 1)]"
| "counter_add x ((y, n) # d) =
     (if x = y then (y, Suc n) # d else (y, n) # counter_add x d)"

definition Counter :: "'a list \<Rightarrow> ('a \<times> nat) list" where
  "Counter xs = foldl (\<lambda>d x. counter_add x d) [] xs"

text \<open>\<open>v / self.n_shots\<close>: a \<open>TypeError\<close> on \<open>None\<close>, a \<open>ZeroDivisionError\<close> on zero.\<close>

definition py_div :: "nat \<Rightarrow> nat option \<Rightarrow> py_error + real" where
  "py_div v n =
     (case n of
        None \<Rightarrow> Inl TypeError
      | Some k \<Rightarrow> if k = 0 then Inl ZeroDivisionError else Inr (real v / real k))"

type_synonym frequencies = "(string \<times> real) list"

section \<open>The backends, as parameters\<close>

text \<open>
  The translators, the backend libraries, the random sampler, the helper
  \<open>measurement_basis_gates\<close> and the constructor and the sum of circuits are not among
  the sources: they are parameters of the model. Each call that may raise returns an
  error or a value. A call to a backend or to the sampler is given the world, since
  two calls with the same arguments need not agree.
  \<^item> \<open>translate t c noise\<close>: the translator of target \<open>t\<close>;
  \<^item> \<open>allocate t n init\<close>: the target's register of \<open>n\<close> qubits, loaded with
    \<open>init\<close> when it is given (qulacs and projectq);
  \<^item> \<open>qulacs_shot\<close>, \<open>projectq_shot\<close>: one repetition of the circuit, its sampled
    basis state (an integer for qulacs, the string of measured bits for projectq) and
    the reset of the register;
  \<^item> \<open>qulacs_vector\<close>, \<open>qiskit_vector\<close>, \<open>projectq_vector\<close>: one run and the
    amplitudes read back;
  \<^item> \<open>qiskit_counts\<close>: the qasm simulator's histogram of measured strings;
  \<^item> \<open>qdk_estimate\<close>: the list the Q\# operation \<open>EstimateFrequencies\<close> returns;
  \<^item> \<open>rvs xk pk n\<close>: \<open>n\<close> draws of scipy's discrete distribution with values
    \<open>xk\<close> and probabilities \<open>pk\<close>;
  \<^item> \<open>qulacs_expectation\<close>, \<open>projectq_expectation\<close>: the backends' own expectation
    value routines;
  \<^item> \<open>np_zeros n\<close>: whether \<open>np.zeros(n)\<close> raises (numpy refuses a dimension
    beyond the platform's index type, and the machine may lack the memory) or hands
    back the array of \<open>n\<close> zeros (\<open>None\<close>);
  \<^item> \<open>abs_pow2 a\<close>: the float that \<open>abs(a)**2\<close> evaluates to in binary64
    arithmetic, which need not be the exact square of the modulus.
\<close>

datatype program = Program string

type_synonym operator = "(pauli_term \<times> pynum) list"

record env =
  translate :: "string \<Rightarrow> circuit \<Rightarrow> noise_model option \<Rightarrow> py_error + program"
  allocate :: "string \<Rightarrow> nat \<Rightarrow> statevector option \<Rightarrow> py_error option"
  qulacs_shot :: "world \<Rightarrow> program \<Rightarrow> nat \<Rightarrow> statevector option \<Rightarrow> py_error + nat"
  qulacs_vector :: "world \<Rightarrow> program \<Rightarrow> nat \<Rightarrow> statevector option \<Rightarrow> py_error + statevector"
  qiskit_counts :: "world \<Rightarrow> program \<Rightarrow> nat \<Rightarrow> noise_model option \<Rightarrow> statevector option
     \<Rightarrow> nat option \<Rightarrow> py_error + (string \<times> nat) list"
  qiskit_vector :: "world \<Rightarrow> program \<Rightarrow> statevector option \<Rightarrow> py_error + statevector"
  projectq_shot :: "world \<Rightarrow> program \<Rightarrow> nat \<Rightarrow> statevector option \<Rightarrow> py_error + string"
  projectq_vector :: "world \<Rightarrow> program \<Rightarrow> nat \<Rightarrow> statevector option \<Rightarrow> py_error + statevector"
  qdk_estimate :: "world \<Rightarrow> program \<Rightarrow> nat \<Rightarrow> nat option \<Rightarrow> py_error + real list"
  rvs :: "world \<Rightarrow> nat list \<Rightarrow> real list \<Rightarrow> nat \<Rightarrow> py_error + nat list"
  qulacs_expectation :: "world \<Rightarrow> operator \<Rightarrow> nat \<Rightarrow> statevector option \<Rightarrow> py_error + real"
  projectq_expectation :: "world \<Rightarrow> operator \<Rightarrow> nat \<Rightarrow> statevector option \<Rightarrow> py_error + pynum"
  measurement_basis_gates :: "pauli_term \<Rightarrow> py_error + gate list"
  Circuit :: "gate list \<Rightarrow> nat option \<Rightarrow> circuit"
  circuit_add :: "circuit \<Rightarrow> circuit \<Rightarrow> circuit"
  np_zeros :: "nat \<Rightarrow> py_error option"
  abs_pow2 :: "complex \<Rightarrow> real"

text \<open>
  The loop \<open>for i in range(shots)\<close> of a sampling branch: one call of the backend per
  shot, each recorded in the world, the samples in order; an exception ends the loop.
\<close>

fun run_shots :: "(world \<Rightarrow> py_error + 'a) \<Rightarrow> string \<Rightarrow> nat \<Rightarrow> world
    \<Rightarrow> (py_error + 'a list) \<times> world" where
  "run_shots f t 0 w = (Inr [], w)"
| "run_shots f t (Suc n) w =
     (case f w of
        Inl e \<Rightarrow> (Inl e, w @ [Run t])
      | Inr x \<Rightarrow>
          (case run_shots f t n (w @ [Run t]) of
             (Inl e, w') \<Rightarrow> (Inl e, w')
           | (Inr xs, w') \<Rightarrow> (Inr (x # xs), w')))"


section \<open>From amplitudes to frequencies\<close>

text \<open>
  \<open>int(math.log2(n))\<close> for a positive length: the position of its leading bit. The
  floating-point logarithm gives this value for every length a statevector can have.
\<close>

fun floor_log2 :: "nat \<Rightarrow> nat" where
  "floor_log2 n = (if n < 2 then 0 else Suc (floor_log2 (n div 2)))"

declare floor_log2.simps [simp del]

text \<open>
  The first loop of \<open>Simulator._statevector_to_frequencies\<close>: the amplitudes from
  index \<open>i\<close> on, each kept when the float \<open>abs(amplitude)**2\<close> minus the threshold
  is not negative, stored under the key \<open>__int_to_binstr\<close> gives its index. The
  difference of two floats is negative exactly when the first is the smaller number,
  so the test is written on the reals they denote.
\<close>

fun keep_amplitudes ::
  "env \<Rightarrow> simulator \<Rightarrow> nat \<Rightarrow> nat \<Rightarrow> statevector \<Rightarrow> frequencies \<Rightarrow> frequencies" where
  "keep_amplitudes E s n_qubits i [] fr = fr"
| "keep_amplitudes E s n_qubits i (amplitude # rest) fr =
     (let frequency = abs_pow2 E amplitude in
      if frequency - freq_threshold s \<ge> 0 then
        keep_amplitudes E s n_qubits (Suc i) rest
          (dict_set (int_to_binstr (sv_order s) i n_qubits) frequency fr)
      else keep_amplitudes E s n_qubits (Suc i) rest fr)"

text \<open>The second loop: \<open>xk\<close> from the keys read backwards as binary numbers.\<close>

fun keys_to_ints :: "frequencies \<Rightarrow> py_error + nat list" where
  "keys_to_ints [] = Inr []"
| "keys_to_ints ((k, v) # rest) =
     (case int_base2 (rev k) of
        Inl e \<Rightarrow> Inl e
      | Inr x \<Rightarrow> (case keys_to_ints rest of Inl e \<Rightarrow> Inl e | Inr xs \<Rightarrow> Inr (x # xs)))"

text \<open>
  \<open>Simulator._statevector_to_frequencies\<close>. With no shot count the exact table is
  returned; otherwise the sampler draws \<open>n_shots\<close> values and the table of their
  relative counts is returned.
\<close>

definition statevector_to_frequencies ::
  "env \<Rightarrow> simulator \<Rightarrow> world \<Rightarrow> statevector \<Rightarrow> (py_error + frequencies) \<times> world" where
  "statevector_to_frequencies E s w sv =
     (if length sv = 0 then (Inl (ValueError MathDomain), w)
      else
        let n_qubits = floor_log2 (length sv);
            fr = keep_amplitudes E s n_qubits 0 sv []
        in if no_shots (n_shots s) then (Inr fr, w)
           else
             (case keys_to_ints fr of
                Inl e \<Rightarrow> (Inl e, w)
              | Inr xk \<Rightarrow>
                  (case rvs E w xk (map snd fr) (case n_shots s of None \<Rightarrow> 0 | Some n \<Rightarrow> n) of
                     Inl e \<Rightarrow> (Inl e, w @ [Draw])
                   | Inr samples \<Rightarrow>
                       (case dict_comp
                               (\<lambda>(k, v). case py_div v (n_shots s) of
                                   Inl e \<Rightarrow> Inl e
                                 | Inr q \<Rightarrow> Inr (int_to_binstr (sv_order s) k n_qubits, q))
                               (Counter samples) [] of
                          Inl e \<Rightarrow> (Inl e, w @ [Draw])
                        | Inr freqs_shots \<Rightarrow> (Inr freqs_shots, w @ [Draw])))))"

section \<open>Simulation\<close>

text \<open>
  What \<open>simulate\<close> hands back: an exception, or the pair of the frequency table and
  the statevector (or \<open>None\<close>), or \<open>None\<close> alone when no branch of the dispatch matches
  the target and the function body ends without a \<open>return\<close>.
\<close>

type_synonym sim_result = "py_error + (frequencies \<times> statevector option) option"

text \<open>The qulacs branch (lines 103 to 134).\<close>

definition simulate_qulacs ::
  "env \<Rightarrow> simulator \<Rightarrow> world \<Rightarrow> circuit \<Rightarrow> bool \<Rightarrow> statevector option
     \<Rightarrow> sim_result \<times> simulator \<times> world" where
  "simulate_qulacs E s w c return_statevector initial_statevector =
     (let w1 = w @ [Translate ''qulacs''] in
      case translate E ''qulacs'' c (sim_noise_model s) of
        Inl e \<Rightarrow> (Inl e, s, w1)
      | Inr translated_circuit \<Rightarrow>
          (case allocate E ''qulacs'' (width c) initial_statevector of
             Some e \<Rightarrow> (Inl e, s, w1)
           | None \<Rightarrow>
               if is_mixed_state c \<or> sim_noise_model s \<noteq> None then
                 (case n_shots s of
                    None \<Rightarrow> (Inl TypeError, s, w1)
                  | Some shots \<Rightarrow>
                      (case run_shots
                              (\<lambda>w'. qulacs_shot E w' translated_circuit (width c) initial_statevector)
                              ''qulacs'' shots w1 of
                         (Inl e, w2) \<Rightarrow> (Inl e, s, w2)
                       | (Inr samples, w2) \<Rightarrow>
                           (case dict_comp
                                   (\<lambda>(k, v). case py_div v (n_shots s) of
                                       Inl e \<Rightarrow> Inl e
                                     | Inr q \<Rightarrow> Inr (int_to_binstr (sv_order s) k (width c), q))
                                   (Counter samples) [] of
                              Inl e \<Rightarrow> (Inl e, s, w2)
                            | Inr fr \<Rightarrow> (Inr (Some (fr, None)), s, w2))))
               else
                 (case qulacs_vector E w1 translated_circuit (width c) initial_statevector of
                    Inl e \<Rightarrow> (Inl e, s, w1 @ [Run ''qulacs''])
                  | Inr python_statevector \<Rightarrow>
                      (let s' = s\<lparr>current_state := Some python_statevector\<rparr> in
                       case statevector_to_frequencies E s' (w1 @ [Run ''qulacs''])
                              python_statevector of
                         (Inl e, w3) \<Rightarrow> (Inl e, s', w3)
                       | (Inr fr, w3) \<Rightarrow>
                           (Inr (Some (fr, if return_statevector then Some python_statevector
                                           else None)), s', w3)))))"

text \<open>
  The qiskit branch (lines 136 to 174). An initial statevector with a noise model is
  refused; the width of an initial statevector is \<open>int(math.log2(len(...)))\<close>, which
  raises on an empty one. The sampling path sets \<open>return_statevector\<close> to false and
  reverses each measured string.
\<close>

definition simulate_qiskit ::
  "env \<Rightarrow> simulator \<Rightarrow> world \<Rightarrow> circuit \<Rightarrow> bool \<Rightarrow> statevector option
     \<Rightarrow> sim_result \<times> simulator \<times> world" where
  "simulate_qiskit E s w c return_statevector initial_statevector =
     (let w1 = w @ [Translate ''qiskit''] in
      case translate E ''qiskit'' c None of
        Inl e \<Rightarrow> (Inl e, s, w1)
      | Inr translated_circuit \<Rightarrow>
          if initial_statevector \<noteq> None \<and> sim_noise_model s \<noteq> None then
            (Inl (ValueError QiskitInitialNoise), s, w1)
          else if initial_statevector = Some [] then (Inl (ValueError MathDomain), s, w1)
          else if sim_noise_model s \<noteq> None \<or> is_mixed_state c then
            (case qiskit_counts E w1 translated_circuit (width c) (sim_noise_model s)
                    initial_statevector (n_shots s) of
               Inl e \<Rightarrow> (Inl e, s, w1 @ [Run ''qiskit''])
             | Inr counts \<Rightarrow>
                 (case dict_comp
                         (\<lambda>(state, count). case py_div count (n_shots s) of
                             Inl e \<Rightarrow> Inl e
                           | Inr q \<Rightarrow> Inr (rev state, q))
                         counts [] of
                    Inl e \<Rightarrow> (Inl e, s, w1 @ [Run ''qiskit''])
                  | Inr fr \<Rightarrow> (Inr (Some (fr, None)), s, w1 @ [Run ''qiskit''])))
          else
            (case qiskit_vector E w1 translated_circuit initial_statevector of
               Inl e \<Rightarrow> (Inl e, s, w1 @ [Run ''qiskit''])
             | Inr sv \<Rightarrow>
                 (let s' = s\<lparr>current_state := Some sv\<rparr> in
                  case statevector_to_frequencies E s' (w1 @ [Run ''qiskit'']) sv of
                    (Inl e, w3) \<Rightarrow> (Inl e, s', w3)
                  | (Inr fr, w3) \<Rightarrow>
                      (Inr (Some (fr, if return_statevector then Some sv else None)), s', w3))))"

text \<open>
  The projectq branch (lines 176 to 213). The all-zero state of line 180 is allocated
  first, whatever the path. The sampling path runs only for a circuit with a
  measurement, and keeps the backend's strings of measured bits as keys.
\<close>

definition simulate_projectq ::
  "env \<Rightarrow> simulator \<Rightarrow> world \<Rightarrow> circuit \<Rightarrow> bool \<Rightarrow> statevector option
     \<Rightarrow> sim_result \<times> simulator \<times> world" where
  "simulate_projectq E s w c return_statevector initial_statevector =
     (let w1 = w @ [Translate ''projectq''] in
      case translate E ''projectq'' c None of
        Inl e \<Rightarrow> (Inl e, s, w1)
      | Inr translated_circuit \<Rightarrow>
          (case np_zeros E (2 ^ width c) of
             Some e \<Rightarrow> (Inl e, s, w1)
           | None \<Rightarrow>
               if initial_statevector = Some [] then (Inl (ValueError MathDomain), s, w1)
               else
                 (case allocate E ''projectq''
                         (case initial_statevector of
                            None \<Rightarrow> width c
                          | Some v \<Rightarrow> floor_log2 (length v))
                         initial_statevector of
                    Some e \<Rightarrow> (Inl e, s, w1)
                  | None \<Rightarrow>
                      if is_mixed_state c then
                        (case n_shots s of
                           None \<Rightarrow> (Inl TypeError, s, w1)
                         | Some shots \<Rightarrow>
                             (case run_shots
                                     (\<lambda>w'. projectq_shot E w' translated_circuit (width c)
                                              initial_statevector)
                                     ''projectq'' shots w1 of
                                (Inl e, w2) \<Rightarrow> (Inl e, s, w2)
                              | (Inr samples, w2) \<Rightarrow>
                                  (case dict_comp
                                          (\<lambda>(k, v). case py_div v (n_shots s) of
                                              Inl e \<Rightarrow> Inl e
                                            | Inr q \<Rightarrow> Inr (k, q))
                                          (Counter samples) [] of
                                     Inl e \<Rightarrow> (Inl e, s, w2)
                                   | Inr fr \<Rightarrow> (Inr (Some (fr, None)), s, w2))))
                      else
                        (case projectq_vector E w1 translated_circuit (width c)
                                initial_statevector of
                           Inl e \<Rightarrow> (Inl e, s, w1 @ [Run ''projectq''])
                         | Inr sv \<Rightarrow>
                             (let s' = s\<lparr>current_state := Some sv\<rparr> in
                              case statevector_to_frequencies E s' (w1 @ [Run ''projectq''])
                                     sv of
                                (Inl e, w3) \<Rightarrow> (Inl e, s', w3)
                              | (Inr fr, w3) \<Rightarrow>
                                  (Inr (Some (fr, if return_statevector then Some sv
                                                  else None)), s', w3))))))"

text \<open>
  The qdk branch (lines 215 to 233). The list of frequencies is indexed by basis
  state; each index becomes its binary digits, padded on the left to the width and
  reversed; an entry is kept when its value is greater than the threshold.
\<close>

definition qdk_frequencies :: "simulator \<Rightarrow> nat \<Rightarrow> real list \<Rightarrow> frequencies" where
  "qdk_frequencies s wd frequencies_list =
     (let fr = foldl (\<lambda>d i. dict_set (bin_str i) (frequencies_list ! i) d) []
                 [0 ..< length frequencies_list]
      in foldl (\<lambda>d (k, v).
                  if v > freq_threshold s then dict_set (rev (zero_pad wd k)) v d else d)
           [] fr)"

definition simulate_qdk ::
  "env \<Rightarrow> simulator \<Rightarrow> world \<Rightarrow> circuit \<Rightarrow> sim_result \<times> simulator \<times> world" where
  "simulate_qdk E s w c =
     (let w1 = w @ [Translate ''qdk''] in
      case translate E ''qdk'' c None of
        Inl e \<Rightarrow> (Inl e, s, w1)
      | Inr translated_circuit \<Rightarrow>
          (case qdk_estimate E w1 translated_circuit (width c) (n_shots s) of
             Inl e \<Rightarrow> (Inl e, s, w1 @ [Run ''qdk''])
           | Inr frequencies_list \<Rightarrow>
               (Inr (Some (qdk_frequencies s (width c) frequencies_list, None)),
                s, w1 @ [Run ''qdk''])))"

text \<open>
  \<open>Simulator.simulate\<close>: the two checks, the fast path of a circuit with no gate, and
  the dispatch on the target. The fast path allocates \<open>np.zeros(2**width)\<close> before it
  looks at \<open>return_statevector\<close>: when the allocation raises, so does the call.
\<close>

definition simulate ::
  "env \<Rightarrow> simulator \<Rightarrow> world \<Rightarrow> circuit \<Rightarrow> bool \<Rightarrow> statevector option
     \<Rightarrow> sim_result \<times> simulator \<times> world" where
  "simulate E s w source_circuit return_statevector initial_statevector =
     (if is_mixed_state source_circuit \<and> no_shots (n_shots s) then
        (Inl (ValueError MixedNeedsShots), s, w)
      else if width source_circuit = 0 then (Inl (ValueError EmptyCircuit), s, w)
      else if circuit_size source_circuit = 0 then
        (let fr = [(replicate (width source_circuit) CHR ''0'', 1)] in
         case np_zeros E (2 ^ width source_circuit) of
           Some e \<Rightarrow> (Inl e, s, w)
         | None \<Rightarrow>
             (let sv = (replicate (2 ^ width source_circuit) 0)[0 := 1]
              in (Inr (Some (fr, if return_statevector then Some sv else None)), s, w)))
      else if sim_target s = ''qulacs'' then
        simulate_qulacs E s w source_circuit return_statevector initial_statevector
      else if sim_target s = ''qiskit'' then
        simulate_qiskit E s w source_circuit return_statevector initial_statevector
      else if sim_target s = ''projectq'' then
        simulate_projectq E s w source_circuit return_statevector initial_statevector
      else if sim_target s = ''qdk'' then simulate_qdk E s w source_circuit
      else (Inr None, s, w))"

section \<open>Expectation values\<close>

text \<open>
  The mask of \<open>get_expectation_value_from_frequencies_oneterm\<close>: \<open>mask[index] = "1"\<close>
  for each factor of the term, an \<open>IndexError\<close> when the index is not a position of
  the mask. Qubit indices are natural numbers.
\<close>

fun set_mask :: "pauli_term \<Rightarrow> string \<Rightarrow> py_error + string" where
  "set_mask [] msk = Inr msk"
| "set_mask ((index, op) # rest) msk =
     (if index < length msk then set_mask rest (msk[index := CHR ''1''])
      else Inl IndexError)"

text \<open>
  \<open>bitarray(s)\<close> of a string of the characters 0 and 1, and \<open>a & b\<close>, which needs
  operands of one length.
\<close>

definition bitarray :: "string \<Rightarrow> py_error + bool list" where
  "bitarray s =
     (if list_all is_bit s then Inr (map (\<lambda>c. c = CHR ''1'') s)
      else Inl (ValueError BitarrayError))"

definition bitarray_and :: "bool list \<Rightarrow> bool list \<Rightarrow> py_error + bool list" where
  "bitarray_and a b =
     (if length a = length b then Inr (map (\<lambda>(x, y). x \<and> y) (zip a b))
      else Inl (ValueError BitarrayError))"

text \<open>\<open>(-1) ** (bits.to01().count("1") % 2)\<close>\<close>

definition sample_value :: "bool list \<Rightarrow> real" where
  "sample_value bits = (- 1) ^ (length (filter (\<lambda>b. b) bits) mod 2)"

fun term_loop :: "string \<Rightarrow> frequencies \<Rightarrow> real \<Rightarrow> py_error + real" where
  "term_loop msk [] expectation_term = Inr expectation_term"
| "term_loop msk ((basis_state, freq) # rest) expectation_term =
     (case bitarray msk of
        Inl e \<Rightarrow> Inl e
      | Inr m \<Rightarrow>
          (case bitarray basis_state of
             Inl e \<Rightarrow> Inl e
           | Inr b \<Rightarrow>
               (case bitarray_and m b of
                  Inl e \<Rightarrow> Inl e
                | Inr r \<Rightarrow> term_loop msk rest (expectation_term + sample_value r * freq))))"

text \<open>
  \<open>Simulator.get_expectation_value_from_frequencies_oneterm\<close>. On an empty table the
  source executes \<open>return ValueError(...)\<close>: the exception object is the value handed
  back.
\<close>

definition get_expectation_value_from_frequencies_oneterm ::
  "pauli_term \<Rightarrow> frequencies \<Rightarrow> py_error + pyval" where
  "get_expectation_value_from_frequencies_oneterm trm fr =
     (if fr = [] then Inr (ExcObject (ValueError NonEmptyFrequencies))
      else
        let n_qubits = length (fst (hd fr)) in
        case set_mask trm (replicate n_qubits CHR ''0'') of
          Inl e \<Rightarrow> Inl e
        | Inr msk \<Rightarrow>
            (case term_loop msk fr 0 of
               Inl e \<Rightarrow> Inl e
             | Inr x \<Rightarrow> Inr (Num (PyFloat x))))"

text \<open>
  The loop of \<open>Simulator._get_expectation_value_from_frequencies\<close>. Unpacking the
  \<open>None\<close> that \<open>simulate\<close> may hand back, and multiplying a coefficient by a value that
  is not a number, raise \<open>TypeError\<close>.
\<close>

fun freq_terms :: "env \<Rightarrow> simulator \<Rightarrow> world \<Rightarrow> circuit \<Rightarrow> nat \<Rightarrow> operator \<Rightarrow> pynum
    \<Rightarrow> (py_error + pynum) \<times> simulator \<times> world" where
  "freq_terms E s w c n_qubits [] expectation_value = (Inr expectation_value, s, w)"
| "freq_terms E s w c n_qubits ((trm, coef) # rest) expectation_value =
     (if length trm > n_qubits then (Inl (ValueError (OperatorTooWide n_qubits)), s, w)
      else if trm = [] then freq_terms E s w c n_qubits rest (py_add expectation_value coef)
      else
        case measurement_basis_gates E trm of
          Inl e \<Rightarrow> (Inl e, s, w)
        | Inr gs \<Rightarrow>
            (let basis_circuit = Circuit E gs None;
                 full_circuit = (if circuit_size basis_circuit > 0
                                 then circuit_add E c basis_circuit else c)
             in case simulate E s w full_circuit False None of
                  (Inl e, s', w') \<Rightarrow> (Inl e, s', w')
                | (Inr None, s', w') \<Rightarrow> (Inl TypeError, s', w')
                | (Inr (Some (fr, sv)), s', w') \<Rightarrow>
                    (case get_expectation_value_from_frequencies_oneterm trm fr of
                       Inl e \<Rightarrow> (Inl e, s', w')
                     | Inr (Num x) \<Rightarrow>
                         freq_terms E s' w' c n_qubits rest
                           (py_add expectation_value (py_mul coef x))
                     | Inr other \<Rightarrow> (Inl TypeError, s', w'))))"

definition get_expectation_value_from_frequencies ::
  "env \<Rightarrow> simulator \<Rightarrow> world \<Rightarrow> operator \<Rightarrow> circuit \<Rightarrow> (py_error + pyval) \<times> simulator \<times> world" where
  "get_expectation_value_from_frequencies E s w qubit_operator c =
     (case freq_terms E s w c (width c) qubit_operator (PyFloat 0) of
        (Inl e, s', w') \<Rightarrow> (Inl e, s', w')
      | (Inr x, s', w') \<Rightarrow> (Inr (Num x), s', w'))"

text \<open>
  The overlap of the generic statevector path: \<open>len(prepared_state)\<close> raises on
  \<open>None\<close>, \<open>pauli_state[i]\<close> raises on \<open>None\<close> and on an index past its end.
\<close>

fun delta_loop :: "statevector \<Rightarrow> statevector \<Rightarrow> nat list \<Rightarrow> real \<Rightarrow> py_error + real" where
  "delta_loop pauli_state prepared_state [] delta = Inr delta"
| "delta_loop pauli_state prepared_state (i # rest) delta =
     (if i < length pauli_state then
        delta_loop pauli_state prepared_state rest
          (delta + (Re (pauli_state ! i) * Re (prepared_state ! i)
                    + Im (pauli_state ! i) * Im (prepared_state ! i)))
      else Inl IndexError)"

definition overlap :: "statevector option \<Rightarrow> statevector option \<Rightarrow> py_error + real" where
  "overlap pauli_state prepared_state =
     (case prepared_state of
        None \<Rightarrow> Inl TypeError
      | Some pr \<Rightarrow>
          (case pauli_state of
             None \<Rightarrow> if pr = [] then Inr 0 else Inl TypeError
           | Some ps \<Rightarrow> delta_loop ps pr [0 ..< length pr] 0))"

text \<open>The generic loop of \<open>Simulator._get_expectation_value_from_statevector\<close>.\<close>

fun sv_terms :: "env \<Rightarrow> simulator \<Rightarrow> world \<Rightarrow> nat \<Rightarrow> frequencies \<Rightarrow> statevector option
    \<Rightarrow> operator \<Rightarrow> pynum \<Rightarrow> (py_error + pynum) \<times> simulator \<times> world" where
  "sv_terms E s w n_qubits prepared_frequencies prepared_state [] expectation_value =
     (Inr expectation_value, s, w)"
| "sv_terms E s w n_qubits prepared_frequencies prepared_state ((trm, coef) # rest)
       expectation_value =
     (if length trm > n_qubits then (Inl (ValueError (OperatorTooWide n_qubits)), s, w)
      else if trm = [] then
        sv_terms E s w n_qubits prepared_frequencies prepared_state rest
          (py_add expectation_value coef)
      else if no_shots (n_shots s) then
        (let pauli_circuit =
               Circuit E (map (\<lambda>(index, pauli). \<lparr>name = pauli, target = index,
                                  control = None, parameter = None\<rparr>) trm)
                 (Some n_qubits)
         in case simulate E s w pauli_circuit True prepared_state of
              (Inl e, s', w') \<Rightarrow> (Inl e, s', w')
            | (Inr None, s', w') \<Rightarrow> (Inl TypeError, s', w')
            | (Inr (Some (fr, pauli_state)), s', w') \<Rightarrow>
                (case overlap pauli_state prepared_state of
                   Inl e \<Rightarrow> (Inl e, s', w')
                 | Inr delta \<Rightarrow>
                     sv_terms E s' w' n_qubits prepared_frequencies prepared_state rest
                       (py_add expectation_value (py_mul coef (PyFloat delta)))))
      else
        (case measurement_basis_gates E trm of
           Inl e \<Rightarrow> (Inl e, s, w)
         | Inr gs \<Rightarrow>
             (let basis_circuit = Circuit E gs None in
              case (if circuit_size basis_circuit > 0 then
                      (case simulate E s w basis_circuit False prepared_state of
                         (Inl e, s', w') \<Rightarrow> (Inl e, s', w')
                       | (Inr None, s', w') \<Rightarrow> (Inl TypeError, s', w')
                       | (Inr (Some (fr, sv)), s', w') \<Rightarrow> (Inr fr, s', w'))
                    else (Inr prepared_frequencies, s, w)) of
                (Inl e, s', w') \<Rightarrow> (Inl e, s', w')
              | (Inr fr, s', w') \<Rightarrow>
                  (case get_expectation_value_from_frequencies_oneterm trm fr of
                     Inl e \<Rightarrow> (Inl e, s', w')
                   | Inr (Num x) \<Rightarrow>
                       sv_terms E s' w' n_qubits prepared_frequencies prepared_state rest
                         (py_add expectation_value (py_mul coef x))
                   | Inr other \<Rightarrow> (Inl TypeError, s', w')))))"

text \<open>
  \<open>Simulator._get_expectation_value_from_statevector\<close>: the state is prepared once;
  with no shot count qulacs and projectq use their own expectation value routine.
\<close>

definition get_expectation_value_from_statevector ::
  "env \<Rightarrow> simulator \<Rightarrow> world \<Rightarrow> operator \<Rightarrow> circuit \<Rightarrow> (py_error + pyval) \<times> simulator \<times> world" where
  "get_expectation_value_from_statevector E s w qubit_operator c =
     (let n_qubits = width c in
      case simulate E s w c True None of
        (Inl e, s1, w1) \<Rightarrow> (Inl e, s1, w1)
      | (Inr None, s1, w1) \<Rightarrow> (Inl TypeError, s1, w1)
      | (Inr (Some (prepared_frequencies, prepared_state)), s1, w1) \<Rightarrow>
          if sim_target s1 = ''qulacs'' \<and> no_shots (n_shots s1) then
            (case qulacs_expectation E w1 qubit_operator n_qubits (current_state s1) of
               Inl e \<Rightarrow> (Inl e, s1, w1 @ [Run ''qulacs''])
             | Inr x \<Rightarrow> (Inr (Num (PyFloat x)), s1, w1 @ [Run ''qulacs'']))
          else if sim_target s1 = ''projectq'' \<and> no_shots (n_shots s1) then
            (case projectq_expectation E w1 qubit_operator n_qubits prepared_state of
               Inl e \<Rightarrow> (Inl e, s1, w1 @ [Run ''projectq''])
             | Inr x \<Rightarrow> (Inr (Num x), s1, w1 @ [Run ''projectq'']))
          else
            (case sv_terms E s1 w1 n_qubits prepared_frequencies prepared_state
                    qubit_operator (PyFloat 0) of
               (Inl e, s2, w2) \<Rightarrow> (Inl e, s2, w2)
             | (Inr x, s2, w2) \<Rightarrow> (Inr (Num x), s2, w2)))"

text \<open>
  The first loop of \<open>Simulator.get_expectation_value\<close> (lines 255 to 258), over the
  items of \<open>qubit_operator.terms\<close>: a term with more factors than the circuit has
  qubits raises; otherwise the term's coefficient is overwritten, in the caller's
  dictionary, by its real part. The dictionary as it stands is handed back also when
  the loop raises.
\<close>

fun check_terms :: "nat \<Rightarrow> operator \<Rightarrow> operator \<Rightarrow> py_error option \<times> operator" where
  "check_terms wd [] terms = (None, terms)"
| "check_terms wd ((trm, coef) # rest) terms =
     (if wd < length trm then (Some (ValueError (TermTooWide trm wd)), terms)
      else check_terms wd rest (dict_set trm (real_attr coef) terms))"

text \<open>
  \<open>Simulator.get_expectation_value\<close>. The result comes with the operator as the call
  leaves it, the instance and the world.
\<close>

definition get_expectation_value ::
  "env \<Rightarrow> simulator \<Rightarrow> world \<Rightarrow> operator \<Rightarrow> circuit
     \<Rightarrow> (py_error + pyval) \<times> operator \<times> simulator \<times> world" where
  "get_expectation_value E s w qubit_operator state_prep_circuit =
     (case check_terms (width state_prep_circuit) qubit_operator qubit_operator of
        (Some e, terms) \<Rightarrow> (Inl e, terms, s, w)
      | (None, terms) \<Rightarrow>
          if sim_noise_model s \<noteq> None \<or> \<not> sv_available s
             \<or> is_mixed_state state_prep_circuit \<or> circuit_size state_prep_circuit = 0
          then
            (case get_expectation_value_from_frequencies E s w terms state_prep_circuit of
               (r, s', w') \<Rightarrow> (r, terms, s', w'))
          else if sv_available s then
            (case get_expectation_value_from_statevector E s w terms state_prep_circuit of
               (r, s', w') \<Rightarrow> (r, terms, s', w'))
          else (Inr PyNone, terms, s, w))"

section \<open>The IonQ translator\<close>

text \<open>\<open>str.lower\<close> on an ASCII character.\<close>

definition lower_char :: "char \<Rightarrow> char" where
  "lower_char c =
     (let n = (of_char c :: nat) in if 65 \<le> n \<and> n \<le> 90 then char_of (n + 32) else c)"

text \<open>\<open>get_ionq_gates\<close>: the dictionary from each of ten gate names to its lower case.\<close>

definition get_ionq_gates :: "(string \<times> string) list" where
  "get_ionq_gates =
     map (\<lambda>nm. (nm, map lower_char nm))
       [''H'', ''X'', ''Y'', ''Z'', ''S'', ''T'', ''RX'', ''RY'', ''RZ'', ''CNOT'']"

text \<open>
  One entry of the JSON circuit: \<open>{'gate', 'target'}\<close>, with \<open>'rotation'\<close> for a
  rotation and with \<open>'control'\<close> for a controlled gate.
\<close>

datatype json_gate =
    JsonGate string nat
  | JsonRotation string nat "real option"
  | JsonControlled string nat "nat option"

record ionq_circuit =
  qubits :: nat
  json_gates :: "json_gate list"

text \<open>The loop of \<open>translate_json_ionq\<close> over the gates; \<open>d[k]\<close> raises \<open>KeyError\<close>
  on a missing key.\<close>

fun translate_gates :: "gate list \<Rightarrow> json_gate list \<Rightarrow> py_error + json_gate list" where
  "translate_gates [] acc = Inr acc"
| "translate_gates (g # rest) acc =
     (if name g \<in> set [''H'', ''X'', ''Y'', ''Z'', ''S'', ''T''] then
        (case map_of get_ionq_gates (name g) of
           None \<Rightarrow> Inl (KeyError (name g))
         | Some nm \<Rightarrow> translate_gates rest (acc @ [JsonGate nm (target g)]))
      else if name g \<in> set [''RX'', ''RY'', ''RZ''] then
        (case map_of get_ionq_gates (name g) of
           None \<Rightarrow> Inl (KeyError (name g))
         | Some nm \<Rightarrow> translate_gates rest (acc @ [JsonRotation nm (target g) (parameter g)]))
      else if name g \<in> set [''CNOT''] then
        (case map_of get_ionq_gates (name g) of
           None \<Rightarrow> Inl (KeyError (name g))
         | Some nm \<Rightarrow> translate_gates rest (acc @ [JsonControlled nm (target g) (control g)]))
      else Inl (ValueError (GateNotSupported (name g))))"

definition translate_json_ionq :: "circuit \<Rightarrow> py_error + ionq_circuit" where
  "translate_json_ionq source_circuit =
     (case translate_gates (gates source_circuit) [] of
        Inl e \<Rightarrow> Inl e
      | Inr js \<Rightarrow> Inr \<lparr>qubits = width source_circuit, json_gates = js\<rparr>)"

section \<open>The retained distribution\<close>

text \<open>
  The normalizer as the specification words it, to be compared with the source's
  loops, with the probability of a basis state read as the float the code computes
  for it: the retained basis states are the indices, with their amplitudes, whose
  computed probability is at least the threshold; the exact table gives each its
  bitstring and its computed probability.
\<close>

definition retained_states :: "env \<Rightarrow> simulator \<Rightarrow> statevector \<Rightarrow> (nat \<times> complex) list" where
  "retained_states E s sv =
     filter (\<lambda>(i, a). freq_threshold s \<le> abs_pow2 E a) (List.enumerate 0 sv)"

definition exact_table :: "env \<Rightarrow> simulator \<Rightarrow> statevector \<Rightarrow> frequencies" where
  "exact_table E s sv =
     map (\<lambda>(i, a). (int_to_binstr (sv_order s) i (floor_log2 (length sv)), abs_pow2 E a))
       (retained_states E s sv)"

section \<open>The signed parity of a bitstring\<close>

text \<open>
  The reduction as the specification words it, to be compared with the source's loop:
  the mask of a term has a 1 at each qubit of the term; a bitstring counts \<open>+1\<close> when
  the bitwise AND of the mask with it has an even number of 1s, and \<open>-1\<close> otherwise.
\<close>

definition term_sign :: "pauli_term \<Rightarrow> string \<Rightarrow> real" where
  "term_sign trm b =
     (if even (length (filter (\<lambda>i. i \<in> fst ` set trm \<and> b ! i = CHR ''1'') [0 ..< length b]))
      then 1 else - 1)"

section \<open>An environment for the examples\<close>

text \<open>
  A two-qubit world for the concrete examples below. Every translator accepts every
  circuit; the statevector backends leave the register in the basis state of index 1;
  every shot measures that state; the Q\# operation reports it with frequency one; the
  sampler draws the first value of the distribution every time. No term needs a change
  of basis; a circuit built from gates alone is as wide as its largest target requires.
  \<open>np.zeros\<close> refuses a dimension of \<open>2^63\<close> or more, as numpy does where the
  index type has 64 bits, and allocates every other array.

  The float \<open>abs(a)**2\<close> is the exact square of the modulus on the amplitudes 0
  and 1 of this world. On one more amplitude, whose two parts are the floats written
  \<open>4.5237955350981866e-06\<close> and \<open>8.918255095960516e-06\<close>, the exact square of the
  modulus is below the threshold \<open>1e-10\<close>, and binary64 arithmetic gives the float
  \<open>1.0000000000000002e-10\<close>, which is \<open>1934281311383407 / 2^84\<close>, above it.
\<close>

definition boundary_amplitude :: complex where
  "boundary_amplitude =
     Complex (5340755102575757 / 2 ^ 70) (5264408618855669 / 2 ^ 69)"

definition example_env :: env where
  "example_env =
     \<lparr>translate = (\<lambda>t c noise. Inr (Program t)),
      allocate = (\<lambda>t n init. None),
      qulacs_shot = (\<lambda>w p n init. Inr 1),
      qulacs_vector = (\<lambda>w p n init. Inr [0, 1, 0, 0]),
      qiskit_counts = (\<lambda>w p n noise init shots.
         Inr [(''01'', case shots of None \<Rightarrow> 1024 | Some k \<Rightarrow> k)]),
      qiskit_vector = (\<lambda>w p init. Inr [0, 1, 0, 0]),
      projectq_shot = (\<lambda>w p n init. Inr ''10''),
      projectq_vector = (\<lambda>w p n init. Inr [0, 1, 0, 0]),
      qdk_estimate = (\<lambda>w p n shots. Inr [0, 1, 0, 0]),
      rvs = (\<lambda>w xk pk n. case xk of [] \<Rightarrow> Inl (BackendError ''rv_discrete'')
                                    | x # rest \<Rightarrow> Inr (replicate n x)),
      qulacs_expectation = (\<lambda>w operator n st. Inr 0),
      projectq_expectation = (\<lambda>w operator n st. Inr (PyFloat 0)),
      measurement_basis_gates = (\<lambda>t. Inr []),
      Circuit = (\<lambda>gs n. \<lparr>gates = gs,
                           width = (case n of
                                      None \<Rightarrow> foldr (\<lambda>g m. max (Suc (target g)) m) gs 0
                                    | Some k \<Rightarrow> k)\<rparr>),
      circuit_add = (\<lambda>a b. \<lparr>gates = gates a @ gates b, width = max (width a) (width b)\<rparr>),
      np_zeros = (\<lambda>n. if 2 ^ 63 \<le> int n then Some (ValueError ArrayTooLarge) else None),
      abs_pow2 = (\<lambda>a. if a = boundary_amplitude then 1934281311383407 / 2 ^ 84
                      else (Re a)\<^sup>2 + (Im a)\<^sup>2)\<rparr>"

text \<open>Two instances as the constructor builds them, and two circuits.\<close>

definition qdk_simulator :: simulator where
  "qdk_simulator =
     \<lparr>sim_target = ''qdk'', current_state = None, sim_noise_model = None,
      n_shots = Some 100, freq_threshold = 7737125245533627 / 2 ^ 86, sv_available = False,
      sv_order = None, noisy_ok = False\<rparr>"

definition qulacs_simulator :: "nat option \<Rightarrow> simulator" where
  "qulacs_simulator shots =
     \<lparr>sim_target = ''qulacs'', current_state = None, sim_noise_model = None,
      n_shots = shots, freq_threshold = 7737125245533627 / 2 ^ 86, sv_available = True,
      sv_order = Some ''msq_first'', noisy_ok = True\<rparr>"

definition hadamards :: circuit where
  "hadamards =
     \<lparr>gates = [\<lparr>name = ''H'', target = 0, control = None, parameter = None\<rparr>,
               \<lparr>name = ''H'', target = 1, control = None, parameter = None\<rparr>],
      width = 2\<rparr>"

definition no_gates :: "nat \<Rightarrow> circuit" where
  "no_gates n = \<lparr>gates = [], width = n\<rparr>"

definition measure_only :: circuit where
  "measure_only =
     \<lparr>gates = [\<lparr>name = ''MEASURE'', target = 0, control = None, parameter = None\<rparr>],
      width = 1\<rparr>"

section \<open>Construction-time validation\<close>

text \<open>
  C4. Construction validates in order. When the target has a capability descriptor:
  a noise model with a descriptor that does not support noisy simulation fails with
  the "does not support noise models" error; otherwise no shot count (\<open>None\<close>)
  together with an unavailable statevector or a noise model fails with the "number of
  shots needs to be specified" error. In both cases the world is unchanged: no backend
  call was made.
\<close>

theorem init_validation_order:
  assumes "backend_info tgt = Some d"
  shows "(noise \<noteq> None \<and> \<not> noisy_simulation d \<longrightarrow>
            Simulator_init w tgt shots noise = (Inl (ValueError NoiseUnsupported), w))
       \<and> (\<not> (noise \<noteq> None \<and> \<not> noisy_simulation d) \<and> shots = None
            \<and> (\<not> statevector_available d \<or> noise \<noteq> None) \<longrightarrow>
            Simulator_init w tgt shots noise = (Inl (ValueError ShotsNeeded), w))"
  using assms by (simp add: Simulator_init_def no_shots_def)

theorem init_validation_order_witness:
  "Simulator_init [] ''projectq'' None (Some (NoiseModel ''depol''))
     = (Inl (ValueError NoiseUnsupported), [])
   \<and> Simulator_init [] ''qdk'' None None = (Inl (ValueError ShotsNeeded), [])
   \<and> Simulator_init [] ''qulacs'' None (Some (NoiseModel ''depol''))
     = (Inl (ValueError ShotsNeeded), [])"
proof -
  have p: "backend_info ''projectq'' = Some \<lparr>statevector_available = True,
      statevector_order = Some ''msq_first'', noisy_simulation = False\<rparr>"
    by (simp add: backend_info_def)
  have q: "backend_info ''qdk'' = Some \<lparr>statevector_available = False,
      statevector_order = None, noisy_simulation = False\<rparr>"
    by (simp add: backend_info_def)
  have u: "backend_info ''qulacs'' = Some \<lparr>statevector_available = True,
      statevector_order = Some ''msq_first'', noisy_simulation = True\<rparr>"
    by (simp add: backend_info_def)
  show ?thesis
    using init_validation_order [OF p, where noise = "Some (NoiseModel ''depol'')"
        and w = "[]" and shots = None]
      init_validation_order [OF q, where noise = None and w = "[]" and shots = None]
      init_validation_order [OF u, where noise = "Some (NoiseModel ''depol'')"
        and w = "[]" and shots = None]
    by simp
qed

section \<open>The fast path of a circuit with no gate\<close>

text \<open>
  C3, as the source has it. For every circuit with no gate and a positive width
  \<open>w\<close> for which \<open>np.zeros\<close> allocates the array of \<open>2^w\<close> amplitudes, whatever the
  target, the shot count and the other arguments, \<open>simulate\<close> returns the table with
  the single entry \<open>'0'*w\<close> of frequency 1, returns with it, when the statevector is
  requested, the vector of dimension \<open>2^w\<close> whose first amplitude is 1 and whose
  others are 0, and leaves the instance and the world as they were: no backend was
  called.
\<close>

theorem simulate_empty_circuit:
  assumes "circuit_size c = 0" and "0 < width c" and "np_zeros E (2 ^ width c) = None"
  shows "simulate E s w c rsv init =
           (Inr (Some ([(replicate (width c) CHR ''0'', 1)],
                       if rsv then Some (1 # replicate (2 ^ width c - 1) 0) else None)), s, w)"
proof -
  have g: "gates c = []" using assms(1) by (simp add: circuit_size_def)
  have m: "\<not> is_mixed_state c" by (simp add: is_mixed_state_def g)
  have v: "(replicate (2 ^ width c) (0::complex))[0 := 1] = 1 # replicate (2 ^ width c - 1) 0"
  proof -
    obtain k where k: "(2::nat) ^ width c = Suc k"
      by (metis not0_implies_Suc power_not_zero zero_neq_numeral)
    show ?thesis by (simp add: k)
  qed
  show ?thesis using assms m by (simp add: simulate_def v)
qed

theorem simulate_empty_circuit_witness:
  "circuit_size (no_gates 2) = 0 \<and> 0 < width (no_gates 2)
   \<and> simulate example_env (qulacs_simulator (Some 7)) [] (no_gates 2) True None
       = (Inr (Some ([(''00'', 1)], Some [1, 0, 0, 0])), qulacs_simulator (Some 7), [])"
proof -
  have a: "circuit_size (no_gates 2) = 0" by (simp add: circuit_size_def no_gates_def)
  have b: "0 < width (no_gates 2)" by (simp add: no_gates_def)
  have z: "np_zeros example_env (2 ^ width (no_gates 2)) = None"
    by (simp add: example_env_def no_gates_def)
  have r: "replicate (width (no_gates 2)) CHR ''0'' = ''00''"
    by (simp add: no_gates_def numeral_2_eq_2)
  have v: "(1::complex) # replicate (2 ^ width (no_gates 2) - 1) 0 = [1, 0, 0, 0]"
    by (simp add: no_gates_def numeral_3_eq_3)
  show ?thesis
    using simulate_empty_circuit [OF a b z, of "qulacs_simulator (Some 7)" "[]" True None]
      a b
    unfolding r v by simp
qed

text \<open>
  The claim as the specification states it, for every width, fails where the array
  cannot be allocated: at width 64 numpy refuses the dimension \<open>2^64\<close>, and the call
  raises although no statevector was requested.
\<close>

theorem empty_circuit_allocation_raises:
  "circuit_size (no_gates 64) = 0 \<and> 0 < width (no_gates 64)
   \<and> simulate example_env (qulacs_simulator (Some 7)) [] (no_gates 64) False None
       = (Inl (ValueError ArrayTooLarge), qulacs_simulator (Some 7), [])"
proof -
  have z: "np_zeros example_env
             = (\<lambda>n. if 2 ^ 63 \<le> int n then Some (ValueError ArrayTooLarge) else None)"
    by (simp add: example_env_def)
  show ?thesis
    by (simp add: simulate_def no_gates_def circuit_size_def is_mixed_state_def z)
qed

section \<open>The statevector position on a backend without amplitudes\<close>




section \<open>The IonQ translator's gate set\<close>

lemma ionq_keys: "map fst get_ionq_gates = [''H'', ''X'', ''Y'', ''Z'', ''S'', ''T'', ''RX'', ''RY'', ''RZ'', ''CNOT'']"
  by (simp add: get_ionq_gates_def)

lemma ionq_lookup: "k \<in> set (map fst get_ionq_gates) \<Longrightarrow> \<exists>v. map_of get_ionq_gates k = Some v"
  by (metis map_of_eq_None_iff not_None_eq set_map)

lemma translate_gates_ok:
  "list_all (\<lambda>g. name g \<in> set (map fst get_ionq_gates)) gs \<Longrightarrow>
     \<exists>js. translate_gates gs acc = Inr (acc @ js) \<and> length js = length gs"
proof (induction gs arbitrary: acc)
  case Nil
  then show ?case by simp
next
  case (Cons g gs)
  from Cons.prems have in_keys: "name g \<in> set (map fst get_ionq_gates)"
    and rest: "list_all (\<lambda>g. name g \<in> set (map fst get_ionq_gates)) gs" by simp_all
  obtain v where v: "map_of get_ionq_gates (name g) = Some v"
    using ionq_lookup [OF in_keys] by blast
  have step: "\<exists>j. translate_gates (g # gs) acc = translate_gates gs (acc @ [j])"
    using in_keys v unfolding ionq_keys by auto
  then obtain j where j: "translate_gates (g # gs) acc = translate_gates gs (acc @ [j])" ..
  obtain js where "translate_gates gs (acc @ [j]) = Inr ((acc @ [j]) @ js)" "length js = length gs"
    using Cons.IH [OF rest] by blast
  then show ?case using j by (intro exI [of _ "j # js"]) simp
qed

lemma translate_gates_bad:
  "List.find (\<lambda>g. name g \<notin> set (map fst get_ionq_gates)) gs = Some g \<Longrightarrow>
     translate_gates gs acc = Inl (ValueError (GateNotSupported (name g)))"
proof (induction gs arbitrary: acc)
  case Nil
  then show ?case by simp
next
  case (Cons h gs)
  show ?case
  proof (cases "name h \<in> set (map fst get_ionq_gates)")
    case True
    then obtain v where v: "map_of get_ionq_gates (name h) = Some v"
      using ionq_lookup by blast
    have step: "\<exists>j. translate_gates (h # gs) acc = translate_gates gs (acc @ [j])"
      using True v unfolding ionq_keys by auto
    from Cons.prems True have "List.find (\<lambda>g. name g \<notin> set (map fst get_ionq_gates)) gs = Some g"
      by simp
    then show ?thesis using Cons.IH step by auto
  next
    case False
    then have "g = h" using Cons.prems by simp
    moreover have "translate_gates (h # gs) acc = Inl (ValueError (GateNotSupported (name h)))"
      using False unfolding ionq_keys by simp
    ultimately show ?thesis by simp
  qed
qed

text \<open>
  C7, as the source has it. The IonQ translator supports the ten gates H, X, Y, Z, S,
  T, RX, RY, RZ and CNOT: a circuit of such gates is translated, gate by gate. A
  circuit with any other gate, MEASURE included, fails with the error that names the
  first such gate.
\<close>

theorem translate_json_ionq_gate_set:
  "(list_all (\<lambda>g. name g \<in> set [''H'', ''X'', ''Y'', ''Z'', ''S'', ''T'', ''RX'', ''RY'', ''RZ'', ''CNOT'']) (gates c)
      \<longrightarrow> (\<exists>js. translate_json_ionq c = Inr \<lparr>qubits = width c, json_gates = js\<rparr>
                 \<and> length js = length (gates c)))
   \<and> (\<forall>g. List.find (\<lambda>g. name g \<notin> set [''H'', ''X'', ''Y'', ''Z'', ''S'', ''T'', ''RX'', ''RY'', ''RZ'', ''CNOT'']) (gates c) = Some g
      \<longrightarrow> translate_json_ionq c = Inl (ValueError (GateNotSupported (name g))))"
proof (intro conjI impI allI)
  assume "list_all (\<lambda>g. name g \<in> set [''H'', ''X'', ''Y'', ''Z'', ''S'', ''T'', ''RX'', ''RY'', ''RZ'', ''CNOT'']) (gates c)"
  then have "list_all (\<lambda>g. name g \<in> set (map fst get_ionq_gates)) (gates c)"
    unfolding ionq_keys .
  from translate_gates_ok [OF this, of "[]"]
  show "\<exists>js. translate_json_ionq c = Inr \<lparr>qubits = width c, json_gates = js\<rparr> \<and> length js = length (gates c)"
    by (auto simp: translate_json_ionq_def)
next
  fix g
  assume "List.find (\<lambda>g. name g \<notin> set [''H'', ''X'', ''Y'', ''Z'', ''S'', ''T'', ''RX'', ''RY'', ''RZ'', ''CNOT'']) (gates c) = Some g"
  then have "List.find (\<lambda>g. name g \<notin> set (map fst get_ionq_gates)) (gates c) = Some g"
    unfolding ionq_keys .
  from translate_gates_bad [OF this, of "[]"]
  show "translate_json_ionq c = Inl (ValueError (GateNotSupported (name g)))"
    by (simp add: translate_json_ionq_def)
qed

theorem translate_json_ionq_gate_set_witness:
  "list_all (\<lambda>g. name g \<in> set [''H'', ''X'', ''Y'', ''Z'', ''S'', ''T'', ''RX'', ''RY'', ''RZ'', ''CNOT''])
     (gates hadamards)
   \<and> (\<exists>js. translate_json_ionq hadamards = Inr \<lparr>qubits = width hadamards, json_gates = js\<rparr>
            \<and> length js = length (gates hadamards))
   \<and> translate_json_ionq (measure_only\<lparr>gates := gates hadamards @ gates measure_only\<rparr>)
       = Inl (ValueError (GateNotSupported ''MEASURE''))"
proof -
  let ?m = "measure_only\<lparr>gates := gates hadamards @ gates measure_only\<rparr>"
  let ?g = "\<lparr>name = ''MEASURE'', target = 0, control = None, parameter = None\<rparr>"
  have a: "list_all (\<lambda>g. name g \<in> set [''H'', ''X'', ''Y'', ''Z'', ''S'', ''T'', ''RX'', ''RY'', ''RZ'', ''CNOT''])
             (gates hadamards)"
    by (simp add: hadamards_def)
  have b: "List.find (\<lambda>g. name g \<notin> set [''H'', ''X'', ''Y'', ''Z'', ''S'', ''T'', ''RX'', ''RY'', ''RZ'', ''CNOT''])
             (gates ?m) = Some ?g"
    by (simp add: hadamards_def measure_only_def)
  show ?thesis
    using translate_json_ionq_gate_set [of hadamards] translate_json_ionq_gate_set [of ?m] a b
    by simp
qed

text \<open>The claim as the specification states it fails on MEASURE.\<close>

theorem translate_json_ionq_rejects_measure:
  "translate_json_ionq measure_only = Inl (ValueError (GateNotSupported ''MEASURE''))"
  by code_simp

section \<open>The expectation value of one term\<close>

lemma set_mask_ok:
  "\<forall>(i, p) \<in> set trm. i < length m \<Longrightarrow>
     set_mask trm m = Inr (map (\<lambda>i. if i \<in> fst ` set trm then CHR ''1'' else m ! i) [0 ..< length m])"
proof (induction trm arbitrary: m)
  case Nil
  then show ?case by (simp add: map_nth)
next
  case (Cons a trm)
  obtain i p where a: "a = (i, p)" by (cases a)
  have i: "i < length m" using Cons.prems a by simp
  have r: "\<forall>(j, p) \<in> set trm. j < length (m[i := CHR ''1''])" using Cons.prems by simp
  have "map (\<lambda>j. if j \<in> fst ` set trm then CHR ''1'' else m[i := CHR ''1''] ! j) [0 ..< length m]
      = map (\<lambda>j. if j \<in> fst ` set (a # trm) then CHR ''1'' else m ! j) [0 ..< length m]"
    by (rule map_cong) (auto simp: a nth_list_update)
  then show ?case using Cons.IH [OF r] i by (simp add: a)
qed

lemma sample_value_sign:
  assumes "length b = n" and "list_all is_bit b"
  shows "sample_value (map (\<lambda>(x, y). x \<and> y)
            (zip (map (\<lambda>c. c = CHR ''1'') (map (\<lambda>i. if i \<in> Q then CHR ''1'' else CHR ''0'') [0 ..< n]))
                 (map (\<lambda>c. c = CHR ''1'') b)))
         = (if even (length (filter (\<lambda>i. i \<in> Q \<and> b ! i = CHR ''1'') [0 ..< length b])) then 1 else - 1)"
proof -
  have z: "map (\<lambda>(x, y). x \<and> y)
            (zip (map (\<lambda>c. c = CHR ''1'') (map (\<lambda>i. if i \<in> Q then CHR ''1'' else CHR ''0'') [0 ..< n]))
                 (map (\<lambda>c. c = CHR ''1'') b))
         = map (\<lambda>i. i \<in> Q \<and> b ! i = CHR ''1'') [0 ..< n]"
    using assms(1) by (intro nth_equalityI) auto
  have f: "length (filter (\<lambda>x. x) (map (\<lambda>i. i \<in> Q \<and> b ! i = CHR ''1'') [0 ..< n]))
         = length (filter (\<lambda>i. i \<in> Q \<and> b ! i = CHR ''1'') [0 ..< n])"
    by (simp add: filter_map comp_def)
  have p: "\<And>k::nat. (- 1 :: real) ^ (k mod 2) = (if even k then 1 else - 1)"
    by (simp add: even_iff_mod_2_eq_zero not_mod_2_eq_0_eq_1)
  show ?thesis unfolding sample_value_def z f p using assms(1) by simp
qed

lemma term_loop_ok:
  assumes "\<forall>(b, f) \<in> set fr. length b = n \<and> list_all is_bit b"
  shows "term_loop (map (\<lambda>i. if i \<in> fst ` set trm then CHR ''1'' else CHR ''0'') [0 ..< n]) fr acc
         = Inr (acc + (\<Sum>(b, f) \<leftarrow> fr. term_sign trm b * f))"
  using assms
proof (induction fr arbitrary: acc)
  case Nil
  then show ?case by simp
next
  case (Cons a fr)
  obtain b f where a: "a = (b, f)" by (cases a)
  have b: "length b = n" "list_all is_bit b" using Cons.prems a by simp_all
  have r: "\<forall>(b, f) \<in> set fr. length b = n \<and> list_all is_bit b" using Cons.prems by simp
  have m: "bitarray (map (\<lambda>i. if i \<in> fst ` set trm then CHR ''1'' else CHR ''0'') [0 ..< n])
        = Inr (map (\<lambda>c. c = CHR ''1'') (map (\<lambda>i. if i \<in> fst ` set trm then CHR ''1'' else CHR ''0'') [0 ..< n]))"
    by (auto simp: bitarray_def list_all_iff is_bit_def)
  have bb: "bitarray b = Inr (map (\<lambda>c. c = CHR ''1'') b)"
    using b(2) by (simp add: bitarray_def)
  let ?M = "map (\<lambda>i. if i \<in> fst ` set trm then CHR ''1'' else CHR ''0'') [0 ..< n]"
  let ?A = "map (\<lambda>(x, y). x \<and> y) (zip (map (\<lambda>c. c = CHR ''1'') ?M) (map (\<lambda>c. c = CHR ''1'') b))"
  have an: "bitarray_and (map (\<lambda>c. c = CHR ''1'') ?M) (map (\<lambda>c. c = CHR ''1'') b) = Inr ?A"
    using b(1) by (simp add: bitarray_and_def)
  have sv: "sample_value ?A = term_sign trm b"
    unfolding term_sign_def by (rule sample_value_sign [OF b])
  have step: "term_loop ?M (a # fr) acc = term_loop ?M fr (acc + term_sign trm b * f)"
    by (simp only: a term_loop.simps m bb an sv sum.case)
  show ?case
    unfolding step Cons.IH [OF r] by (simp add: a)
qed

text \<open>
  C8, as the source has it. For every term whose qubit indices are positions of the
  bitstrings, and every non-empty frequency table whose keys are bitstrings of one
  length, \<open>get_expectation_value_from_frequencies_oneterm\<close> returns the sum, over the
  entries of the table, of the sign of the bitstring under the term times its
  frequency.
\<close>

theorem oneterm_signed_parity:
  assumes "fr \<noteq> []"
    and "\<forall>(b, f) \<in> set fr. length b = length (fst (hd fr)) \<and> list_all is_bit b"
    and "\<forall>(i, p) \<in> set trm. i < length (fst (hd fr))"
  shows "get_expectation_value_from_frequencies_oneterm trm fr
           = Inr (Num (PyFloat (\<Sum>(b, f) \<leftarrow> fr. term_sign trm b * f)))"
proof -
  let ?n = "length (fst (hd fr))"
  have "\<forall>(i, p) \<in> set trm. i < length (replicate ?n CHR ''0'')" using assms(3) by simp
  from set_mask_ok [OF this]
  have m: "set_mask trm (replicate ?n CHR ''0'')
        = Inr (map (\<lambda>i. if i \<in> fst ` set trm then CHR ''1'' else CHR ''0'') [0 ..< ?n])"
    by (simp cong: map_cong)
  show ?thesis
    using assms(1) by (simp add: get_expectation_value_from_frequencies_oneterm_def m term_loop_ok [OF assms(2)])
qed

theorem oneterm_signed_parity_witness:
  "get_expectation_value_from_frequencies_oneterm [(1, ''Z'')] [(''01'', 1 / 4), (''10'', 3 / 4)]
     = Inr (Num (PyFloat (1 / 2)))"
  using oneterm_signed_parity [of "[(''01'', 1 / 4), (''10'', 3 / 4)]" "[(1, ''Z'')]"]
  by (simp add: term_sign_def is_bit_def)

text \<open>
  The claim as the specification states it, for every term, fails on a term whose
  qubit index is not a position of the bitstrings: the assignment to the mask raises.
\<close>

theorem oneterm_index_out_of_range:
  "get_expectation_value_from_frequencies_oneterm [(1, ''Z'')] [(''0'', 1)] = Inl IndexError"
  by code_simp

text \<open>
  C2. On an empty table the source builds the exception and returns it: the call ends
  normally, with the exception object as its value, for every term.
\<close>

theorem oneterm_empty_table_returns:
  "get_expectation_value_from_frequencies_oneterm trm []
     = Inr (ExcObject (ValueError NonEmptyFrequencies))"
  by (simp add: get_expectation_value_from_frequencies_oneterm_def)

section \<open>The width check and the caller's operator\<close>

lemma dict_set_mid:
  "k \<notin> fst ` set pre \<Longrightarrow> dict_set k v (pre @ (k, c) # post) = pre @ (k, v) # post"
  by (induction pre) auto

lemma check_terms_ok:
  "distinct (map fst (pre @ rest)) \<Longrightarrow> \<forall>(t, c) \<in> set rest. \<not> wd < length t \<Longrightarrow>
     check_terms wd rest (pre @ rest) = (None, pre @ map (\<lambda>(t, c). (t, real_attr c)) rest)"
proof (induction rest arbitrary: pre)
  case Nil
  then show ?case by simp
next
  case (Cons a rest)
  obtain t c where a: "a = (t, c)" by (cases a)
  have notin: "t \<notin> fst ` set pre" using Cons.prems(1) a by auto
  have d: "distinct (map fst ((pre @ [(t, real_attr c)]) @ rest))"
    using Cons.prems(1) a by auto
  have r: "\<forall>(t, c) \<in> set rest. \<not> wd < length t" using Cons.prems(2) by simp
  have ok: "\<not> wd < length t" using Cons.prems(2) a by simp
  show ?case
    using Cons.IH [OF d r] ok by (simp add: a dict_set_mid [OF notin])
qed

text \<open>
  C10. The operator is a dictionary: its terms are distinct. After any call in which
  every term passes the width check, whatever the rest of the call does, each term's
  coefficient in the caller's operator is the real part of its original value.
\<close>

theorem get_expectation_value_mutates_operator:
  assumes "distinct (map fst qubit_operator)"
    and "\<forall>(t, coef) \<in> set qubit_operator. \<not> width c < length t"
  shows "fst (snd (get_expectation_value E s w qubit_operator c))
           = map (\<lambda>(t, coef). (t, real_attr coef)) qubit_operator"
  using check_terms_ok [of "[]" qubit_operator "width c"] assms
  by (simp add: get_expectation_value_def split: prod.splits)


theorem get_expectation_value_mutates_operator_witness:
  "fst (snd (get_expectation_value example_env qdk_simulator []
               [([(1, ''Z'')], PyComplex (Complex 2 3)), ([], PyComplex 1)] hadamards))
     = [([(1, ''Z'')], PyFloat 2), ([], PyFloat 1)]"
  using get_expectation_value_mutates_operator
    [of "[([(1, ''Z'')], PyComplex (Complex 2 3)), ([], PyComplex 1)]" hadamards
        example_env qdk_simulator "[]"]
  by (simp add: hadamards_def)

text \<open>
  C1. The check compares the circuit's width with the number of factors of a term,
  not with its qubit indices. The operator with the one term Z on qubit 5 passes the
  check of a two-qubit circuit: the backend is called, and the call ends in the
  \<open>IndexError\<close> of the mask assignment, not in the error of the width check.
\<close>

theorem width_check_misses_qubit_index:
  "get_expectation_value example_env qdk_simulator [] [([(5, ''Z'')], PyComplex 1)] hadamards
     = (Inl IndexError, [([(5, ''Z'')], PyFloat 1)], qdk_simulator,
        [Translate ''qdk'', Run ''qdk''])"
  by code_simp

theorem width_check_misses_qubit_index_witness:
  "fst (get_expectation_value example_env qdk_simulator [] [([(5, ''Z'')], PyComplex 1)]
          hadamards) = Inl IndexError
   \<and> snd (snd (snd (get_expectation_value example_env qdk_simulator []
          [([(5, ''Z'')], PyComplex 1)] hadamards))) = [Translate ''qdk'', Run ''qdk'']"
  using width_check_misses_qubit_index by simp

section \<open>From amplitudes to frequencies: the two modes\<close>

lemma bits_value_snoc:
  "bits_value (xs @ [c]) = 2 * bits_value xs + (if c = CHR ''1'' then 1 else 0)"
  by (simp add: bits_value_def)

lemma bin_digits_bits: "list_all is_bit (bin_digits n)"
proof (induction n rule: bin_digits.induct)
  case (1 n)
  show ?case
  proof (cases "n = 0")
    case True
    then show ?thesis by (subst bin_digits.simps) simp
  next
    case False
    have "is_bit (if odd n then CHR ''1'' else CHR ''0'')" by (simp add: is_bit_def)
    then show ?thesis using False 1 by (subst bin_digits.simps) simp
  qed
qed

lemma bits_value_bin_digits: "bits_value (bin_digits n) = n"
proof (induction n rule: bin_digits.induct)
  case (1 n)
  show ?case
  proof (cases "n = 0")
    case True
    then show ?thesis by (subst bin_digits.simps) (simp add: bits_value_def)
  next
    case False
    have "bits_value (bin_digits n) = 2 * (n div 2) + (if odd n then 1 else 0)"
      using False 1 by (subst bin_digits.simps) (simp add: bits_value_snoc)
    then show ?thesis by presburger
  qed
qed

lemma bin_str_bits: "list_all is_bit (bin_str n)"
  by (simp add: bin_str_def bin_digits_bits is_bit_def)

lemma bits_value_bin_str: "bits_value (bin_str n) = n"
  by (simp add: bin_str_def bits_value_bin_digits) (simp add: bits_value_def)

lemma bin_str_nonempty: "bin_str n \<noteq> []"
proof (cases "n = 0")
  case True
  then show ?thesis by (simp add: bin_str_def)
next
  case False
  then show ?thesis by (subst bin_str_def, subst bin_digits.simps) simp
qed

lemma bits_value_zeros: "bits_value (replicate k CHR ''0'' @ s) = bits_value s"
proof -
  have "foldl (\<lambda>acc c. 2 * acc + (if c = CHR ''1'' then 1 else 0)) (0::nat) (replicate k CHR ''0'') = 0"
    by (induction k) simp_all
  then show ?thesis by (simp add: bits_value_def)
qed

lemma zeros_bits: "list_all is_bit (replicate k CHR ''0'')"
  by (induction k) (simp_all add: is_bit_def)

lemma int_base2_zero_pad: "int_base2 (zero_pad n (bin_str i)) = Inr i"
  by (simp add: int_base2_def zero_pad_def bits_value_zeros bits_value_bin_str
      bin_str_nonempty bin_str_bits zeros_bits)

lemma zero_pad_inj: "zero_pad n (bin_str i) = zero_pad n (bin_str j) \<Longrightarrow> i = j"
  by (metis int_base2_zero_pad sum.inject(2))

lemma int_to_binstr_inj: "int_to_binstr ord i n = int_to_binstr ord j n \<Longrightarrow> i = j"
  by (auto simp: int_to_binstr_def Let_def dest: zero_pad_inj split: if_splits)

lemma int_base2_rev_binstr:
  "int_base2 (rev (int_to_binstr (Some ''msq_first'') i n)) = Inr i"
  by (simp add: int_to_binstr_def Let_def int_base2_zero_pad)

lemma dict_set_new: "k \<notin> fst ` set d \<Longrightarrow> dict_set k v d = d @ [(k, v)]"
  by (induction d) auto

lemma keep_amplitudes_eq:
  "fst ` set acc \<subseteq> (\<lambda>i. int_to_binstr (sv_order s) i n) ` {..< i0} \<Longrightarrow>
   keep_amplitudes E s n i0 sv acc
     = acc @ map (\<lambda>(i, a). (int_to_binstr (sv_order s) i n, abs_pow2 E a))
               (filter (\<lambda>(i, a). freq_threshold s \<le> abs_pow2 E a) (List.enumerate i0 sv))"
proof (induction sv arbitrary: i0 acc)
  case Nil
  then show ?case by simp
next
  case (Cons a sv)
  show ?case
  proof (cases "freq_threshold s \<le> abs_pow2 E a")
    case True
    have new: "int_to_binstr (sv_order s) i0 n \<notin> fst ` set acc"
    proof
      assume "int_to_binstr (sv_order s) i0 n \<in> fst ` set acc"
      then obtain j where "j < i0" "int_to_binstr (sv_order s) i0 n = int_to_binstr (sv_order s) j n"
        using Cons.prems by auto
      then show False using int_to_binstr_inj by blast
    qed
    let ?acc = "acc @ [(int_to_binstr (sv_order s) i0 n, abs_pow2 E a)]"
    have sub: "fst ` set ?acc \<subseteq> (\<lambda>i. int_to_binstr (sv_order s) i n) ` {..< Suc i0}"
      using Cons.prems by (auto simp: lessThan_Suc)
    show ?thesis
      using True Cons.IH [OF sub] by (simp add: dict_set_new [OF new])
  next
    case False
    have sub: "fst ` set acc \<subseteq> (\<lambda>i. int_to_binstr (sv_order s) i n) ` {..< Suc i0}"
      using Cons.prems by (auto simp: lessThan_Suc)
    show ?thesis using False Cons.IH [OF sub] by simp
  qed
qed

lemma keep_amplitudes_exact:
  "keep_amplitudes E s (floor_log2 (length sv)) 0 sv [] = exact_table E s sv"
  using keep_amplitudes_eq [where acc = "[]" and s = s and n = "floor_log2 (length sv)"
      and ?i0.0 = 0 and sv = sv and E = E]
  by (simp add: exact_table_def retained_states_def)

lemma keys_to_ints_msq:
  "keys_to_ints (map (\<lambda>(i, a). (int_to_binstr (Some ''msq_first'') i n, f a)) xs) = Inr (map fst xs)"
  by (induction xs) (auto simp: int_base2_rev_binstr)

lemma counter_add_keys: "fst ` set (counter_add x d) = insert x (fst ` set d)"
  by (induction x d rule: counter_add.induct) auto

lemma counter_add_distinct: "distinct (map fst d) \<Longrightarrow> distinct (map fst (counter_add x d))"
  by (induction x d rule: counter_add.induct) (auto simp: counter_add_keys)

lemma counter_fold_distinct:
  "distinct (map fst d) \<Longrightarrow> distinct (map fst (foldl (\<lambda>d x. counter_add x d) d xs))"
  by (induction xs arbitrary: d) (auto simp: counter_add_distinct)

lemma Counter_distinct: "distinct (map fst (Counter xs))"
  by (simp add: Counter_def counter_fold_distinct)

lemma dict_comp_total:
  "distinct (map fst acc @ map (\<lambda>x. fst (g x)) xs) \<Longrightarrow>
   dict_comp (\<lambda>x. Inr (g x)) xs acc = Inr (acc @ map g xs)"
proof (induction xs arbitrary: acc)
  case Nil
  then show ?case by simp
next
  case (Cons x xs)
  obtain k v where g: "g x = (k, v)" by (cases "g x")
  have new: "k \<notin> fst ` set acc" using Cons.prems g by auto
  have d: "distinct (map fst (acc @ [(k, v)]) @ map (\<lambda>x. fst (g x)) xs)"
    using Cons.prems g by auto
  show ?case using Cons.IH [OF d] by (simp add: g dict_set_new [OF new])
qed

lemma relative_counts:
  assumes "0 < n"
  shows "dict_comp (\<lambda>(k, v). case py_div v (Some n) of Inl e \<Rightarrow> Inl e
                               | Inr q \<Rightarrow> Inr (int_to_binstr ord k nq, q)) (Counter samples) []
         = Inr (map (\<lambda>(k, v). (int_to_binstr ord k nq, real v / real n)) (Counter samples))"
proof -
  have f: "(\<lambda>(k, v). case py_div v (Some n) of Inl e \<Rightarrow> Inl e
                       | Inr q \<Rightarrow> Inr (int_to_binstr ord k nq, q))
         = (\<lambda>x. Inr ((\<lambda>(k, v). (int_to_binstr ord k nq, real v / real n)) x))"
    using assms by (auto simp: py_div_def fun_eq_iff)
  have "distinct (map (\<lambda>x. int_to_binstr ord (fst x) nq) (Counter samples))"
  proof -
    have "inj_on (\<lambda>k. int_to_binstr ord k nq) (set (map fst (Counter samples)))"
      by (rule inj_onI) (rule int_to_binstr_inj)
    then have "distinct (map (\<lambda>k. int_to_binstr ord k nq) (map fst (Counter samples)))"
      using Counter_distinct [of samples] by (simp only: distinct_map)
    then show ?thesis by (simp add: comp_def)
  qed
  then have d: "distinct (map fst [] @ map (\<lambda>x. fst ((\<lambda>(k, v). (int_to_binstr ord k nq, real v / real n)) x)) (Counter samples))"
    by (simp add: case_prod_beta)
  show ?thesis unfolding f using dict_comp_total [OF d] by simp
qed

text \<open>
  C6, as the source has it. For a statevector with at least one amplitude, the basis
  states kept are exactly those whose probability, as the float \<open>abs(amplitude)**2\<close>
  the code computes, is at least the threshold. With no shot count (\<open>None\<close> or 0)
  the table of these computed probabilities is returned and nothing is drawn. With a
  positive shot count \<open>n\<close>, on a backend whose order is msq\_first, the sampler is
  asked for \<open>n\<close> draws from the distribution whose values are the kept indices and
  whose probabilities are the kept probabilities, and the table returned gives each
  drawn value's bitstring its count divided by \<open>n\<close>. That the draws are independent
  and follow the distribution is the sampler's contract.
\<close>

theorem statevector_to_frequencies_modes:
  assumes "sv \<noteq> []"
  shows "(no_shots (n_shots s) \<longrightarrow>
            statevector_to_frequencies E s w sv = (Inr (exact_table E s sv), w))
       \<and> (\<forall>n samples. n_shots s = Some n \<and> 0 < n \<and> sv_order s = Some ''msq_first''
            \<and> rvs E w (map fst (retained_states E s sv)) (map snd (exact_table E s sv)) n
                = Inr samples
          \<longrightarrow> statevector_to_frequencies E s w sv
                = (Inr (map (\<lambda>(x, c). (int_to_binstr (sv_order s) x (floor_log2 (length sv)),
                                         real c / real n))
                          (Counter samples)),
                   w @ [Draw]))"
proof (intro conjI impI allI)
  assume "no_shots (n_shots s)"
  then show "statevector_to_frequencies E s w sv = (Inr (exact_table E s sv), w)"
    using assms by (simp add: statevector_to_frequencies_def keep_amplitudes_exact)
next
  fix n samples
  assume h: "n_shots s = Some n \<and> 0 < n \<and> sv_order s = Some ''msq_first''
            \<and> rvs E w (map fst (retained_states E s sv)) (map snd (exact_table E s sv)) n
                = Inr samples"
  have ns: "\<not> no_shots (n_shots s)" using h by (simp add: no_shots_def)
  have k: "keys_to_ints (exact_table E s sv) = Inr (map fst (retained_states E s sv))"
    using h keys_to_ints_msq [of "floor_log2 (length sv)" "abs_pow2 E" "retained_states E s sv"]
    by (simp add: exact_table_def)
  show "statevector_to_frequencies E s w sv
          = (Inr (map (\<lambda>(x, c). (int_to_binstr (sv_order s) x (floor_log2 (length sv)),
                                   real c / real n))
                    (Counter samples)),
             w @ [Draw])"
    using assms ns h
    by (simp add: statevector_to_frequencies_def keep_amplitudes_exact k relative_counts)
qed

theorem statevector_to_frequencies_modes_witness:
  "statevector_to_frequencies example_env (qulacs_simulator None) [] [0, 1, 0, 0]
     = (Inr [(''10'', 1)], [])
   \<and> statevector_to_frequencies example_env (qulacs_simulator (Some 4)) [] [0, 1, 0, 0]
     = (Inr [(''10'', 1)], [Draw])"
proof -
  let ?sv = "[0, 1, 0, 0] :: statevector"
  have ne: "?sv \<noteq> []" by simp
  have e: "exact_table example_env (qulacs_simulator None) ?sv = [(''10'', 1)]" by code_simp
  have n: "no_shots (n_shots (qulacs_simulator None))" by code_simp
  have a: "statevector_to_frequencies example_env (qulacs_simulator None) [] ?sv
             = (Inr [(''10'', 1)], [])"
    using statevector_to_frequencies_modes [OF ne, of "qulacs_simulator None" example_env "[]"] n
    unfolding e by blast
  have h: "n_shots (qulacs_simulator (Some 4)) = Some 4 \<and> 0 < (4::nat)
           \<and> sv_order (qulacs_simulator (Some 4)) = Some ''msq_first''
           \<and> rvs example_env []
                (map fst (retained_states example_env (qulacs_simulator (Some 4)) ?sv))
                (map snd (exact_table example_env (qulacs_simulator (Some 4)) ?sv)) 4
               = Inr [1, 1, 1, 1]"
    by code_simp
  have r: "map (\<lambda>(x, c). (int_to_binstr (sv_order (qulacs_simulator (Some 4))) x
                              (floor_log2 (length ?sv)), real c / real (4::nat)))
             (Counter [1, 1, 1, 1::nat]) = [(''10'', 1)]"
    by code_simp
  have b: "statevector_to_frequencies example_env (qulacs_simulator (Some 4)) [] ?sv
             = (Inr [(''10'', 1)], [Draw])"
    using statevector_to_frequencies_modes [OF ne, of "qulacs_simulator (Some 4)" example_env "[]"] h
    unfolding r [symmetric] by (metis append_Nil)
  show ?thesis using a b by simp
qed

text \<open>
  The claim as the specification states it fails twice. On a shot count that is set
  to 0 the exact table is returned, as for \<open>None\<close>, and the sampler is not called. And
  the state kept need not have a probability of at least the threshold: the boundary
  amplitude's squared modulus is below the threshold, the float computed for it is
  not, and the state is kept, with that float as its frequency.
\<close>

theorem retention_counterexample:
  "statevector_to_frequencies example_env (qulacs_simulator (Some 0)) [] [0, 1, 0, 0]
     = (Inr [(''10'', 1)], [])
   \<and> statevector_to_frequencies example_env (qulacs_simulator None) [] [boundary_amplitude, 1]
     = (Inr [(''0'', 1934281311383407 / 2 ^ 84), (''1'', 1)], [])
   \<and> (cmod boundary_amplitude)\<^sup>2 < freq_threshold (qulacs_simulator None)"
proof -
  have a: "statevector_to_frequencies example_env (qulacs_simulator (Some 0)) [] [0, 1, 0, 0]
     = (Inr [(''10'', 1)], [])"
    by code_simp
  have b: "statevector_to_frequencies example_env (qulacs_simulator None) []
             [boundary_amplitude, 1]
     = (Inr [(''0'', 1934281311383407 / 2 ^ 84), (''1'', 1)], [])"
    by code_simp
  have c: "(cmod boundary_amplitude)\<^sup>2 < freq_threshold (qulacs_simulator None)"
  proof -
    have "(cmod boundary_amplitude)\<^sup>2
            = (Re boundary_amplitude)\<^sup>2 + (Im boundary_amplitude)\<^sup>2"
      by (rule cmod_power2)
    also have "\<dots> < freq_threshold (qulacs_simulator None)"
      by (simp add: boundary_amplitude_def qulacs_simulator_def power2_eq_square)
    finally show ?thesis .
  qed
  show ?thesis using a b c by simp
qed


end
